theory Spec2Isabelle
  imports Complex_Main "HOL-Library.AList"
begin

section \<open>JavaScript values\<close>

text \<open>
  The values that flow through \<^verbatim>\<open>server.js\<close>: what \<^verbatim>\<open>JSON.parse\<close> returns, what the
  page assembler reads with \<^verbatim>\<open>?.\<close> and \<^verbatim>\<open>||\<close>, and what is stored in the
  \<^verbatim>\<open>results_json\<close> column. An object is its list of own properties in insertion order.
  Numbers are modelled by the integers, on which the doubles of JavaScript compute
  exactly below \<open>2^53\<close>; \<open>JNaN\<close> is the one non-JSON number that \<^verbatim>\<open>+\<close> can produce here.
\<close>

datatype jsval =
    JUndefined
  | JNull
  | JBool bool
  | JNaN
  | JNum int
  | JStr string
  | JArr "jsval list"
  | JObj "(string \<times> jsval) list"

text \<open>An \<^verbatim>\<open>Error\<close> object: its \<^verbatim>\<open>name\<close> and its \<^verbatim>\<open>message\<close>.\<close>

datatype error = JsError (ename: string) (message: string)

text \<open>Truthiness, as \<^verbatim>\<open>!x\<close> and \<^verbatim>\<open>x || y\<close> test it.\<close>

fun truthy :: "jsval \<Rightarrow> bool" where
  "truthy JUndefined = False"
| "truthy JNull = False"
| "truthy (JBool b) = b"
| "truthy JNaN = False"
| "truthy (JNum n) = (n \<noteq> 0)"
| "truthy (JStr s) = (s \<noteq> [])"
| "truthy (JArr xs) = True"
| "truthy (JObj kvs) = True"

definition js_or :: "jsval \<Rightarrow> jsval \<Rightarrow> jsval" where
  "js_or a b = (if truthy a then a else b)"

fun nullish :: "jsval \<Rightarrow> bool" where
  "nullish JUndefined = True"
| "nullish JNull = True"
| "nullish v = False"

text \<open>
  \<^verbatim>\<open>v.k\<close> on a value that is not nullish, for the property names this program reads
  (none of them is inherited from a prototype): an own property of an object, and
  \<^verbatim>\<open>undefined\<close> otherwise. \<^verbatim>\<open>v?.k\<close> is \<^verbatim>\<open>undefined\<close> on a nullish value as well.
\<close>

fun getProp :: "jsval \<Rightarrow> string \<Rightarrow> jsval" where
  "getProp (JObj kvs) k = (case map_of kvs k of Some v \<Rightarrow> v | None \<Rightarrow> JUndefined)"
| "getProp v k = JUndefined"

definition optProp :: "jsval \<Rightarrow> string \<Rightarrow> jsval" where
  "optProp v k = (if nullish v then JUndefined else getProp v k)"

text \<open>
  Decimal digits of a natural number, and \<^verbatim>\<open>String(n)\<close> of an integer (as JavaScript
  prints the integers below \<open>10^21\<close>).
\<close>

fun showNat :: "nat \<Rightarrow> string" where
  "showNat n =
     (if n < 10 then [''0123456789'' ! n]
      else showNat (n div 10) @ [''0123456789'' ! (n mod 10)])"

declare showNat.simps [simp del]

definition showInt :: "int \<Rightarrow> string" where
  "showInt i = (if i < 0 then CHR ''-'' # showNat (nat (- i)) else showNat (nat i))"

fun joinComma :: "string list \<Rightarrow> string" where
  "joinComma [] = []"
| "joinComma [s] = s"
| "joinComma (s # t # ss) = s @ CHR '','' # joinComma (t # ss)"

text \<open>
  \<^verbatim>\<open>String(v)\<close>: an array joins its elements with commas (\<^verbatim>\<open>null\<close> and \<^verbatim>\<open>undefined\<close>
  elements as the empty string), a plain object is \<^verbatim>\<open>[object Object]\<close>.
\<close>

fun js_ToString :: "jsval \<Rightarrow> string" where
  "js_ToString JUndefined = ''undefined''"
| "js_ToString JNull = ''null''"
| "js_ToString (JBool b) = (if b then ''true'' else ''false'')"
| "js_ToString JNaN = ''NaN''"
| "js_ToString (JNum n) = showInt n"
| "js_ToString (JStr s) = s"
| "js_ToString (JArr xs) =
     joinComma (map (\<lambda>x. if nullish x then [] else js_ToString x) xs)"
| "js_ToString (JObj kvs) = ''[object Object]''"

text \<open>\<^verbatim>\<open>ToPrimitive\<close>: arrays and objects become their strings.\<close>

fun js_ToPrimitive :: "jsval \<Rightarrow> jsval" where
  "js_ToPrimitive (JArr xs) = JStr (js_ToString (JArr xs))"
| "js_ToPrimitive (JObj kvs) = JStr (js_ToString (JObj kvs))"
| "js_ToPrimitive v = v"

text \<open>\<^verbatim>\<open>ToNumber\<close> of a primitive that is not a string; \<open>None\<close> is \<^verbatim>\<open>NaN\<close>.\<close>

fun js_ToNumber :: "jsval \<Rightarrow> int option" where
  "js_ToNumber JNull = Some 0"
| "js_ToNumber (JBool b) = Some (if b then 1 else 0)"
| "js_ToNumber (JNum n) = Some n"
| "js_ToNumber v = None"

fun isString :: "jsval \<Rightarrow> bool" where
  "isString (JStr s) = True"
| "isString v = False"

text \<open>
  The binary \<^verbatim>\<open>+\<close>: when either operand is a string after \<^verbatim>\<open>ToPrimitive\<close>, the
  concatenation of both strings; the sum of both numbers otherwise.
\<close>

definition js_add :: "jsval \<Rightarrow> jsval \<Rightarrow> jsval" where
  "js_add a b =
     (let pa = js_ToPrimitive a; pb = js_ToPrimitive b in
      if isString pa \<or> isString pb then JStr (js_ToString pa @ js_ToString pb)
      else (case (js_ToNumber pa, js_ToNumber pb) of
              (Some x, Some y) \<Rightarrow> JNum (x + y)
            | _ \<Rightarrow> JNaN))"

text \<open>\<^verbatim>\<open>Math.round\<close>: the nearest integer, a half rounding up.\<close>

definition Math_round :: "rat \<Rightarrow> int" where
  "Math_round x = \<lfloor>x + 1 / 2\<rfloor>"

section \<open>The page assembler\<close>

text \<open>A row of the \<^verbatim>\<open>cities\<close> table, with the columns the service reads.\<close>

record city_row =
  cid :: string
  city :: string
  state_code :: string

text \<open>
  The error a property read on \<^verbatim>\<open>null\<close> or \<^verbatim>\<open>undefined\<close> throws (the message is the
  engine's; V8 words it so).
\<close>

definition TypeError_read :: "jsval \<Rightarrow> string \<Rightarrow> error" where
  "TypeError_read v k =
     JsError ''TypeError''
       (''Cannot read properties of '' @ js_ToString v @ '' (reading '' @
        [CHR 0x27] @ k @ [CHR 0x27] @ '')'')"

text \<open>
  The main page of \<^verbatim>\<open>assemblePagesFromSections\<close>; \<open>now\<close> is what
  \<^verbatim>\<open>new Date().toISOString()\<close> returns when the page is built.
\<close>

definition mainPage :: "string \<Rightarrow> city_row \<Rightarrow> jsval \<Rightarrow> jsval" where
  "mainPage now c mainSections = JObj
     [(''type'', JStr ''main''),
      (''title'', JStr (''Dumpster Rental in '' @ city c @ '', '' @ state_code c @
                        '' - Affordable Roll-Off Rentals'')),
      (''metaDescription'', JStr (''Professional dumpster rental in '' @ city c @ '', '' @
                        state_code c @ ''. Fast delivery, transparent pricing.'')),
      (''h1'', JStr (''Dumpster Rental in '' @ city c @ '', '' @ state_code c)),
      (''content'', JObj
        [(''heroServices'',
            js_or (optProp (getProp mainSections ''hero_services'') ''content'') (JStr [])),
         (''areasWhyChoose'',
            js_or (optProp (getProp mainSections ''areas_whychoose'') ''content'') (JStr [])),
         (''neighborhoods'',
            js_or (optProp (getProp mainSections ''areas_whychoose'') ''neighborhoods'') (JArr [])),
         (''pricingProcess'',
            js_or (optProp (getProp mainSections ''pricing_process'') ''content'') (JStr [])),
         (''faqsPart1'',
            js_or (optProp (getProp mainSections ''faqs_part1'') ''faqs'') (JArr [])),
         (''faqsPart2'',
            js_or (optProp (getProp mainSections ''faqs_part2'') ''faqs'') (JArr [])),
         (''testimonialsCta'',
            js_or (optProp (getProp mainSections ''testimonials_cta'') ''content'') (JStr []))]),
      (''wordCount'',
         js_add (js_add (js_add (js_add (js_add
           (js_or (optProp (getProp mainSections ''hero_services'') ''wordCount'') (JNum 0))
           (js_or (optProp (getProp mainSections ''areas_whychoose'') ''wordCount'') (JNum 0)))
           (js_or (optProp (getProp mainSections ''pricing_process'') ''wordCount'') (JNum 0)))
           (js_or (optProp (getProp mainSections ''faqs_part1'') ''wordCount'') (JNum 0)))
           (js_or (optProp (getProp mainSections ''faqs_part2'') ''wordCount'') (JNum 0)))
           (js_or (optProp (getProp mainSections ''testimonials_cta'') ''wordCount'') (JNum 0))),
      (''generatedAt'', JStr now)]"

text \<open>The page of one neighborhood: the body of the \<^verbatim>\<open>neighborhoods.map\<close> callback.\<close>

definition neighborhoodPage :: "string \<Rightarrow> city_row \<Rightarrow> jsval \<Rightarrow> string \<Rightarrow> jsval" where
  "neighborhoodPage now c sections neighborhood =
     (let key = ''neighborhood_'' @ neighborhood;
          nSections = js_or (getProp sections key) (JObj [])
      in JObj
       [(''type'', JStr ''neighborhood''),
        (''neighborhoodName'', JStr neighborhood),
        (''title'', JStr (''Dumpster Rental in '' @ neighborhood @ '', '' @ city c)),
        (''metaDescription'', JStr (''Dumpster rental in '' @ neighborhood @ '', '' @ city c @
                          ''. Same-day delivery available.'')),
        (''h1'', JStr (''Dumpster Rental in '' @ neighborhood @ '', '' @ city c)),
        (''content'', JObj
          [(''introProjects'',
              js_or (optProp (getProp nSections ''intro_projects'') ''content'') (JStr [])),
           (''serviceDetails'',
              js_or (optProp (getProp nSections ''service_details'') ''content'') (JStr [])),
           (''faqs'',
              js_or (optProp (getProp nSections ''faqs_cta'') ''faqs'') (JArr [])),
           (''cta'',
              js_or (optProp (getProp nSections ''faqs_cta'') ''cta'') (JStr []))]),
        (''wordCount'',
           js_add (js_add
             (js_or (optProp (getProp nSections ''intro_projects'') ''wordCount'') (JNum 0))
             (js_or (optProp (getProp nSections ''service_details'') ''wordCount'') (JNum 0)))
             (js_or (optProp (getProp nSections ''faqs_cta'') ''wordCount'') (JNum 0))),
        (''generatedAt'', JStr now)])"

text \<open>
  \<^verbatim>\<open>assemblePagesFromSections(city, neighborhoods, sections)\<close>. The clock is an input:
  \<open>now 0\<close> is read for the main page and \<open>now (Suc i)\<close> for the page of the \<open>i\<close>-th
  neighborhood. The one read that is not guarded is \<^verbatim>\<open>sections.main\<close>, which throws
  when \<^verbatim>\<open>sections\<close> is \<^verbatim>\<open>null\<close> or \<^verbatim>\<open>undefined\<close>.
\<close>

definition assemblePagesFromSections ::
  "(nat \<Rightarrow> string) \<Rightarrow> city_row \<Rightarrow> string list \<Rightarrow> jsval \<Rightarrow> error + jsval list" where
  "assemblePagesFromSections now c neighborhoods sections =
     (if nullish sections then Inl (TypeError_read sections ''main'')
      else
        let mainSections = js_or (getProp sections ''main'') (JObj []);
            neighborhoodPages =
              map (\<lambda>(i, neighborhood). neighborhoodPage (now (Suc i)) c sections neighborhood)
                  (enumerate 0 neighborhoods)
        in Inr (mainPage (now 0) c mainSections # neighborhoodPages))"

section \<open>Extraction of the structured payload\<close>

text \<open>
  \<^verbatim>\<open>contentText.match(/\{[\s\S]*\}/)\<close>: the match starts at the first \<^verbatim>\<open>{\<close> that has a
  \<^verbatim>\<open>}\<close> after it, which is the first \<^verbatim>\<open>{\<close> of the text when there is a match at all,
  and the greedy star takes it to the last \<^verbatim>\<open>}\<close>.
\<close>

definition jsonMatch :: "string \<Rightarrow> string option" where
  "jsonMatch contentText =
     (let fromBrace = dropWhile (\<lambda>ch. ch \<noteq> CHR ''{'') contentText in
      if CHR ''}'' \<in> set fromBrace
      then Some (rev (dropWhile (\<lambda>ch. ch \<noteq> CHR ''}'') (rev fromBrace)))
      else None)"

text \<open>A content block of the provider's response.\<close>

record content_block =
  block_type :: string
  block_text :: string

text \<open>
  \<^verbatim>\<open>response.content[0].type === 'text' ? response.content[0].text : ''\<close>; with no block
  at all the read of \<^verbatim>\<open>type\<close> throws.
\<close>

definition contentTextOf :: "content_block list \<Rightarrow> error + string" where
  "contentTextOf content =
     (case content of
        [] \<Rightarrow> Inl (TypeError_read JUndefined ''type'')
      | b # bs \<Rightarrow> Inr (if block_type b = ''text'' then block_text b else []))"

text \<open>
  The request of one \<^verbatim>\<open>anthropic.messages.create\<close> call. The prompt is a template
  chosen by the section key and filled with the city's name and state (and the
  neighborhood's name); it is kept as that key and those arguments.
\<close>

record request =
  model_name :: string
  max_tokens :: nat
  temperature :: rat
  prompt_key :: string
  prompt_args :: "string list"

text \<open>Where \<^verbatim>\<open>new Date().toISOString()\<close> is read during one request.\<close>

datatype clock_site = StartedAt | GeneratedAt nat | CompletedAt

text \<open>
  What the service does not compute itself: the provider's answer to the \<open>n\<close>-th call
  of the job (an error when the call throws), \<^verbatim>\<open>JSON.parse\<close> (\<open>Inl m\<close> when it throws a
  \<^verbatim>\<open>SyntaxError\<close> with message \<open>m\<close>), the clock, and whether the record store
  refuses the insert of the job.
\<close>

record env =
  messages_create :: "nat \<Rightarrow> request \<Rightarrow> error + content_block list"
  JSON_parse :: "string \<Rightarrow> string + jsval"
  Date_now :: "clock_site \<Rightarrow> string"
  insert_fails :: bool

text \<open>
  The last four lines of \<^verbatim>\<open>generateMainSection\<close> and of
  \<^verbatim>\<open>generateNeighborhoodSection\<close>, from the response to the parsed payload.
\<close>

definition parsePayload :: "env \<Rightarrow> content_block list \<Rightarrow> error + jsval" where
  "parsePayload e content =
     (case contentTextOf content of
        Inl err \<Rightarrow> Inl err
      | Inr contentText \<Rightarrow>
          (case jsonMatch contentText of
             None \<Rightarrow> Inl (JsError ''Error'' ''No JSON in response'')
           | Some matched \<Rightarrow>
               (case JSON_parse e matched of
                  Inl m \<Rightarrow> Inl (JsError ''SyntaxError'' m)
                | Inr payload \<Rightarrow> Inr payload)))"

definition generateMainSection ::
  "env \<Rightarrow> nat \<Rightarrow> city_row \<Rightarrow> string \<Rightarrow> nat \<Rightarrow> error + jsval" where
  "generateMainSection e n c section maxTokens =
     (let cityName = city c; state = state_code c in
      case messages_create e n
             \<lparr>model_name = ''claude-sonnet-4-20250514'', max_tokens = maxTokens,
              temperature = 7 / 10, prompt_key = section, prompt_args = [cityName, state]\<rparr> of
        Inl err \<Rightarrow> Inl err
      | Inr content \<Rightarrow> parsePayload e content)"

definition generateNeighborhoodSection ::
  "env \<Rightarrow> nat \<Rightarrow> city_row \<Rightarrow> string \<Rightarrow> string \<Rightarrow> nat \<Rightarrow> error + jsval" where
  "generateNeighborhoodSection e n c neighborhood section maxTokens =
     (let cityName = city c; state = state_code c in
      case messages_create e n
             \<lparr>model_name = ''claude-sonnet-4-20250514'', max_tokens = maxTokens,
              temperature = 7 / 10, prompt_key = section,
              prompt_args = [neighborhood, cityName, state]\<rparr> of
        Inl err \<Rightarrow> Inl err
      | Inr content \<Rightarrow> parsePayload e content)"

section \<open>The record store\<close>

text \<open>
  The \<^verbatim>\<open>research_jobs\<close> table holds each row, a list of columns, under its identifier.
  An update names the row it targets (\<^verbatim>\<open>.eq('id', jobId)\<close>) and the columns it sets;
  the columns it does not name keep their values. The store is taken to carry out every
  update the service builds for it.
\<close>

type_synonym db_row = "(string \<times> jsval) list"

type_synonym db_write = "nat \<times> (string \<times> jsval) list"

record db =
  cities :: "city_row list"
  research_jobs :: "(nat \<times> db_row) list"

definition mergeRow :: "db_row \<Rightarrow> (string \<times> jsval) list \<Rightarrow> db_row" where
  "mergeRow row columns = foldl (\<lambda>r (k, v). AList.update k v r) row columns"

definition applyWrite :: "db_write \<Rightarrow> db \<Rightarrow> db" where
  "applyWrite w d =
     d\<lparr>research_jobs :=
          map (\<lambda>(i, row). if i = fst w then (i, mergeRow row (snd w)) else (i, row))
              (research_jobs d)\<rparr>"

definition applyWrites :: "db_write list \<Rightarrow> db \<Rightarrow> db" where
  "applyWrites ws d = fold applyWrite ws d"

text \<open>\<^verbatim>\<open>.single()\<close>: the row when the query selects exactly one, an error otherwise.\<close>

definition single :: "'a list \<Rightarrow> 'a option" where
  "single rows = (case rows of [r] \<Rightarrow> Some r | _ \<Rightarrow> None)"

text \<open>The identifier the store gives a new row: one that no row has.\<close>

definition freshId :: "(nat \<times> db_row) list \<Rightarrow> nat" where
  "freshId jobs = Suc (foldr max (map fst jobs) 0)"

section \<open>The content orchestrator\<close>

text \<open>
  \<^verbatim>\<open>updateProgress(progress, step)\<close>, the closure of \<^verbatim>\<open>generateContent\<close> over
  \<^verbatim>\<open>jobId\<close>: one update of the job's row.
\<close>

definition updateProgress :: "nat \<Rightarrow> rat \<Rightarrow> string \<Rightarrow> db_write" where
  "updateProgress jobId progress step =
     (jobId, [(''progress'', JNum (Math_round progress)), (''current_step'', JStr step)])"

record section_spec =
  key :: string
  label :: string
  tokens :: nat

record main_section = section_spec +
  progress :: int

definition mainSections :: "main_section list" where
  "mainSections =
     [\<lparr>key = ''hero_services'', label = ''Hero & Services'', tokens = 3000, progress = 5\<rparr>,
      \<lparr>key = ''areas_whychoose'', label = ''Areas & Why Choose Us'', tokens = 2500, progress = 15\<rparr>,
      \<lparr>key = ''pricing_process'', label = ''Pricing & Process'', tokens = 2000, progress = 25\<rparr>,
      \<lparr>key = ''faqs_part1'', label = ''FAQs Part 1'', tokens = 2500, progress = 35\<rparr>,
      \<lparr>key = ''faqs_part2'', label = ''FAQs Part 2'', tokens = 2500, progress = 45\<rparr>,
      \<lparr>key = ''testimonials_cta'', label = ''Testimonials & CTA'', tokens = 1500, progress = 50\<rparr>]"

definition neighborhoodSections :: "section_spec list" where
  "neighborhoodSections =
     [\<lparr>key = ''intro_projects'', label = ''Intro & Projects'', tokens = 2000\<rparr>,
      \<lparr>key = ''service_details'', label = ''Service Details'', tokens = 1500\<rparr>,
      \<lparr>key = ''faqs_cta'', label = ''FAQs & CTA'', tokens = 2000\<rparr>]"

text \<open>The neighborhood list is a constant of \<^verbatim>\<open>generateContent\<close>, as are the two numbers.\<close>

definition neighborhoods :: "string list" where
  "neighborhoods = [''Downtown'', ''Northside'', ''Westside'', ''Eastside'']"

definition baseProgress :: rat where
  "baseProgress = 50"

definition progressPerNeighborhood :: rat where
  "progressPerNeighborhood = 25 / 2"

text \<open>
  The checkpoint of section \<open>j\<close> of neighborhood \<open>i\<close>, as the two loops compute it. The
  source computes in doubles and the model in rationals. \<^verbatim>\<open>Math.round\<close> gives the same
  integer on both: the fractional part of a checkpoint is 0 or 1/2, which the doubles
  hold exactly, or a multiple of 1/6 that is farther from 1/2 than any rounding error.
\<close>

definition neighborhoodProgress :: "nat \<Rightarrow> rat" where
  "neighborhoodProgress i = baseProgress + of_nat i * progressPerNeighborhood"

definition sectionProgress :: "nat \<Rightarrow> nat \<Rightarrow> rat" where
  "sectionProgress i j = neighborhoodProgress i + of_nat j * (progressPerNeighborhood / 3)"

text \<open>
  A run of the orchestrator is the list of updates it has sent to the store and then
  either the error it threw or its result. \<open>n\<close> counts the provider calls made so far.

  The loop over \<^verbatim>\<open>mainSections\<close>; \<open>mainObj\<close> is the object \<^verbatim>\<open>sections.main\<close>. The
  \<^verbatim>\<open>console.log\<close> after each generation reads \<^verbatim>\<open>content.wordCount\<close>, which throws on a
  payload that is \<^verbatim>\<open>null\<close>.
\<close>

fun mainLoop ::
  "env \<Rightarrow> nat \<Rightarrow> city_row \<Rightarrow> nat \<Rightarrow> main_section list \<Rightarrow> (string \<times> jsval) list \<Rightarrow>
   db_write list \<times> (error + (string \<times> jsval) list)" where
  "mainLoop e jobId c n [] mainObj = ([], Inr mainObj)"
| "mainLoop e jobId c n (section # rest) mainObj =
     (let w = updateProgress jobId (of_int (progress section))
                (''Main page: '' @ label section @ ''...'') in
      case generateMainSection e n c (key section) (tokens section) of
        Inl err \<Rightarrow> ([w], Inl err)
      | Inr content \<Rightarrow>
          if nullish content then ([w], Inl (TypeError_read content ''wordCount''))
          else (case mainLoop e jobId c (Suc n) rest (AList.update (key section) content mainObj) of
                  (ws, r) \<Rightarrow> (w # ws, r)))"

text \<open>
  The inner loop, over the sections of one neighborhood from index \<open>j\<close> on; \<open>nObj\<close> is
  the object \<^verbatim>\<open>sections[key]\<close>.
\<close>

fun sectionLoop ::
  "env \<Rightarrow> nat \<Rightarrow> city_row \<Rightarrow> nat \<Rightarrow> string \<Rightarrow> nat \<Rightarrow> nat \<Rightarrow> section_spec list \<Rightarrow>
   (string \<times> jsval) list \<Rightarrow> db_write list \<times> (error + (string \<times> jsval) list)" where
  "sectionLoop e jobId c n neighborhood i j [] nObj = ([], Inr nObj)"
| "sectionLoop e jobId c n neighborhood i j (section # rest) nObj =
     (let w = updateProgress jobId (sectionProgress i j)
                (neighborhood @ '': '' @ label section @ ''...'') in
      case generateNeighborhoodSection e n c neighborhood (key section) (tokens section) of
        Inl err \<Rightarrow> ([w], Inl err)
      | Inr content \<Rightarrow>
          if nullish content then ([w], Inl (TypeError_read content ''wordCount''))
          else (case sectionLoop e jobId c (Suc n) neighborhood i (Suc j) rest
                       (AList.update (key section) content nObj) of
                  (ws, r) \<Rightarrow> (w # ws, r)))"

text \<open>The outer loop, over the neighborhoods from index \<open>i\<close> on.\<close>

fun neighborhoodLoop ::
  "env \<Rightarrow> nat \<Rightarrow> city_row \<Rightarrow> nat \<Rightarrow> nat \<Rightarrow> string list \<Rightarrow> (string \<times> jsval) list \<Rightarrow>
   db_write list \<times> (error + (string \<times> jsval) list)" where
  "neighborhoodLoop e jobId c n i [] sections = ([], Inr sections)"
| "neighborhoodLoop e jobId c n i (neighborhood # rest) sections =
     (let nkey = ''neighborhood_'' @ neighborhood;
          sections1 = AList.update nkey (JObj []) sections in
      case sectionLoop e jobId c n neighborhood i 0 neighborhoodSections [] of
        (ws, Inl err) \<Rightarrow> (ws, Inl err)
      | (ws, Inr nObj) \<Rightarrow>
          (case neighborhoodLoop e jobId c (n + length neighborhoodSections) (Suc i) rest
                  (AList.update nkey (JObj nObj) sections1) of
             (ws', r) \<Rightarrow> (ws @ ws', r)))"

text \<open>The update that finalizes a job as completed.\<close>

definition completedWrite :: "env \<Rightarrow> nat \<Rightarrow> jsval list \<Rightarrow> (string \<times> jsval) list \<Rightarrow> db_write" where
  "completedWrite e jobId pages sections =
     (jobId,
      [(''status'', JStr ''completed''),
       (''progress'', JNum 100),
       (''current_step'', JStr ''Complete!''),
       (''completed_at'', JStr (Date_now e CompletedAt)),
       (''results_json'', JObj [(''pages'', JArr pages), (''sections'', JObj sections)])])"

text \<open>
  \<^verbatim>\<open>generateContent(jobId, cityId, city)\<close>. Its \<^verbatim>\<open>catch\<close> logs and throws the error
  again, so an error of any step is the error of the run.
\<close>

definition generateContent ::
  "env \<Rightarrow> nat \<Rightarrow> jsval \<Rightarrow> city_row \<Rightarrow> db_write list \<times> (error + unit)" where
  "generateContent e jobId cityId c =
     (case mainLoop e jobId c 0 mainSections [] of
        (ws1, Inl err) \<Rightarrow> (ws1, Inl err)
      | (ws1, Inr mainObj) \<Rightarrow>
          (case neighborhoodLoop e jobId c (length mainSections) 0 neighborhoods
                  [(''main'', JObj mainObj)] of
             (ws2, Inl err) \<Rightarrow> (ws1 @ ws2, Inl err)
           | (ws2, Inr sections) \<Rightarrow>
               (let w95 = updateProgress jobId 95 ''Assembling pages...'' in
                case assemblePagesFromSections (\<lambda>i. Date_now e (GeneratedAt i)) c neighborhoods
                       (JObj sections) of
                  Inl err \<Rightarrow> (ws1 @ ws2 @ [w95], Inl err)
                | Inr pages \<Rightarrow>
                    (ws1 @ ws2 @ [w95, completedWrite e jobId pages sections], Inr ()))))"

section \<open>The job lifecycle\<close>

text \<open>The update of the rejection handler: the job is finalized as failed.\<close>

definition failedWrite :: "env \<Rightarrow> nat \<Rightarrow> error \<Rightarrow> db_write" where
  "failedWrite e jobId err =
     (jobId,
      [(''status'', JStr ''failed''),
       (''error_message'', JStr (message err)),
       (''completed_at'', JStr (Date_now e CompletedAt))])"

text \<open>
  \<^verbatim>\<open>generateContent(jobId, cityId, city).catch(err => ...)\<close>: the updates the detached
  task sends to the store. The rejection handler builds its update and does not await it,
  where every other update of the service is awaited; the update is counted here among
  those the store receives.
\<close>

definition backgroundTask :: "env \<Rightarrow> nat \<Rightarrow> jsval \<Rightarrow> city_row \<Rightarrow> db_write list" where
  "backgroundTask e jobId cityId c =
     (case generateContent e jobId cityId c of
        (ws, Inl err) \<Rightarrow> ws @ [failedWrite e jobId err]
      | (ws, Inr u) \<Rightarrow> ws)"

text \<open>The row \<^verbatim>\<open>POST /research\<close> inserts, with the identifier the store gives it.\<close>

definition newJob :: "env \<Rightarrow> nat \<Rightarrow> jsval \<Rightarrow> db_row" where
  "newJob e jobId cityId =
     [(''id'', JNum (int jobId)),
      (''city_id'', cityId),
      (''status'', JStr ''processing''),
      (''progress'', JNum 0),
      (''current_step'', JStr ''Starting...''),
      (''started_at'', JStr (Date_now e StartedAt)),
      (''results_json'', JObj [(''sections'', JObj [])])]"

record http_response =
  status_code :: nat
  body :: jsval

text \<open>
  The handler of \<^verbatim>\<open>POST /research\<close>. \<open>cityId\<close> is \<^verbatim>\<open>req.body.cityId\<close>, any value of
  the request's JSON body (\<^verbatim>\<open>undefined\<close> when the body has none). The query
  \<^verbatim>\<open>.eq('id', cityId)\<close> selects the rows whose identifier is the text of \<open>cityId\<close>. The
  result is the response, the store as it is when the response is sent, and the updates
  of the task that was started in the background.
\<close>

definition post_research ::
  "env \<Rightarrow> db \<Rightarrow> jsval \<Rightarrow> http_response \<times> db \<times> db_write list" where
  "post_research e d cityId =
     (if \<not> truthy cityId then
        (\<lparr>status_code = 400, body = JObj [(''error'', JStr ''City ID required'')]\<rparr>, d, [])
      else
        (case single (filter (\<lambda>r. cid r = js_ToString cityId) (cities d)) of
           None \<Rightarrow>
             (\<lparr>status_code = 404, body = JObj [(''error'', JStr ''City not found'')]\<rparr>, d, [])
         | Some c \<Rightarrow>
             if insert_fails e then
               (\<lparr>status_code = 500,
                 body = JObj [(''error'', JStr ''Failed to create job'')]\<rparr>, d, [])
             else
               (let jobId = freshId (research_jobs d);
                    d' = d\<lparr>research_jobs := research_jobs d @ [(jobId, newJob e jobId cityId)]\<rparr>
                in (\<lparr>status_code = 200,
                     body = JObj [(''success'', JBool True),
                                  (''jobId'', JNum (int jobId)),
                                  (''message'', JStr ''Content generation started'')]\<rparr>,
                    d', backgroundTask e jobId cityId c))))"

text \<open>The store once the background task of a request has run to its end.\<close>

definition settled :: "http_response \<times> db \<times> db_write list \<Rightarrow> db" where
  "settled r = (case r of (resp, d, ws) \<Rightarrow> applyWrites ws d)"

text \<open>The row of a job in the store.\<close>

definition jobRow :: "db \<Rightarrow> nat \<Rightarrow> db_row option" where
  "jobRow d jobId = map_of (research_jobs d) jobId"

section \<open>What a run reports\<close>

text \<open>
  The progress values of a list of updates, in the order the store receives them: the
  \<^verbatim>\<open>progress\<close> column of each update that sets it.
\<close>

definition reportedProgress :: "db_write list \<Rightarrow> jsval list" where
  "reportedProgress ws = List.map_filter (\<lambda>w. map_of (snd w) ''progress'') ws"

section \<open>What a successful run collects\<close>

text \<open>
  The payload of a generation that returned, the objects a run that completes has
  filled with them (the provider's calls are numbered in the order of the loops), and
  the pages the assembler returns on a sections object. The lemmas further down show
  that a successful run stores exactly these.
\<close>

definition payloadOf :: "error + jsval \<Rightarrow> jsval" where
  "payloadOf r = (case r of Inl err \<Rightarrow> JUndefined | Inr v \<Rightarrow> v)"

definition mainObject :: "env \<Rightarrow> city_row \<Rightarrow> jsval" where
  "mainObject e c = JObj
     [(''hero_services'', payloadOf (generateMainSection e 0 c ''hero_services'' 3000)),
      (''areas_whychoose'', payloadOf (generateMainSection e 1 c ''areas_whychoose'' 2500)),
      (''pricing_process'', payloadOf (generateMainSection e 2 c ''pricing_process'' 2000)),
      (''faqs_part1'', payloadOf (generateMainSection e 3 c ''faqs_part1'' 2500)),
      (''faqs_part2'', payloadOf (generateMainSection e 4 c ''faqs_part2'' 2500)),
      (''testimonials_cta'', payloadOf (generateMainSection e 5 c ''testimonials_cta'' 1500))]"

definition neighborhoodObject :: "env \<Rightarrow> city_row \<Rightarrow> nat \<Rightarrow> string \<Rightarrow> jsval" where
  "neighborhoodObject e c n nb = JObj
     [(''intro_projects'',
         payloadOf (generateNeighborhoodSection e n c nb ''intro_projects'' 2000)),
      (''service_details'',
         payloadOf (generateNeighborhoodSection e (Suc n) c nb ''service_details'' 1500)),
      (''faqs_cta'',
         payloadOf (generateNeighborhoodSection e (Suc (Suc n)) c nb ''faqs_cta'' 2000))]"

definition collectedSections :: "env \<Rightarrow> city_row \<Rightarrow> (string \<times> jsval) list" where
  "collectedSections e c =
     [(''main'', mainObject e c),
      (''neighborhood_Downtown'', neighborhoodObject e c 6 ''Downtown''),
      (''neighborhood_Northside'', neighborhoodObject e c 9 ''Northside''),
      (''neighborhood_Westside'', neighborhoodObject e c 12 ''Westside''),
      (''neighborhood_Eastside'', neighborhoodObject e c 15 ''Eastside'')]"

definition assembledPages :: "(nat \<Rightarrow> string) \<Rightarrow> city_row \<Rightarrow> string list \<Rightarrow> jsval \<Rightarrow> jsval list" where
  "assembledPages now c nbs sections =
     mainPage (now 0) c (js_or (getProp sections ''main'') (JObj [])) #
     map (\<lambda>(i, nb). neighborhoodPage (now (Suc i)) c sections nb) (enumerate 0 nbs)"

text \<open>A column of a job's row, and the pages of its results payload.\<close>

definition jobColumn :: "db \<Rightarrow> nat \<Rightarrow> string \<Rightarrow> jsval" where
  "jobColumn d jobId k =
     (case jobRow d jobId of
        None \<Rightarrow> JUndefined
      | Some row \<Rightarrow> (case map_of row k of None \<Rightarrow> JUndefined | Some v \<Rightarrow> v))"

definition jobPages :: "db \<Rightarrow> nat \<Rightarrow> jsval list" where
  "jobPages d jobId =
     (case getProp (jobColumn d jobId ''results_json'') ''pages'' of
        JArr pages \<Rightarrow> pages
      | _ \<Rightarrow> [])"

text \<open>The number of properties of an object.\<close>

definition propertyCount :: "jsval \<Rightarrow> nat" where
  "propertyCount v = (case v of JObj kvs \<Rightarrow> length kvs | _ \<Rightarrow> 0)"





section \<open>Sample inputs\<close>

text \<open>
  A parser for the fragment of JSON that has integer numbers and strings without
  escapes. It stands for \<^verbatim>\<open>JSON.parse\<close> in the sample environments below, on texts of
  that fragment; the theorems about the service hold for every \<open>JSON_parse\<close>. The first
  argument bounds the depth of the recursion.
\<close>

definition isWs :: "char \<Rightarrow> bool" where
  "isWs ch = (ch \<in> set [CHR '' '', CHR 0x0A, CHR 0x0D, CHR 0x09])"

definition skipWs :: "string \<Rightarrow> string" where
  "skipWs s = dropWhile isWs s"

definition isDigit :: "char \<Rightarrow> bool" where
  "isDigit ch = (ch \<in> set ''0123456789'')"

definition digitsValue :: "string \<Rightarrow> nat" where
  "digitsValue ds = foldl (\<lambda>a ch. 10 * a + (of_char ch - 48)) 0 ds"

text \<open>The characters of a string after its opening quote, and what follows the closing one.\<close>

fun parseString :: "string \<Rightarrow> (string \<times> string) option" where
  "parseString [] = None"
| "parseString (ch # cs) =
     (if ch = CHR 0x22 then Some ([], cs)
      else if ch = CHR 0x5C \<or> (of_char ch :: nat) < 32 then None
      else (case parseString cs of
              None \<Rightarrow> None
            | Some (s, rest) \<Rightarrow> Some (ch # s, rest)))"

definition parseNumber :: "string \<Rightarrow> (jsval \<times> string) option" where
  "parseNumber s =
     (let negative = (s \<noteq> [] \<and> hd s = CHR ''-'');
          s1 = (if negative then tl s else s);
          ds = takeWhile isDigit s1;
          rest = dropWhile isDigit s1
      in if ds = [] \<or> (1 < length ds \<and> hd ds = CHR ''0'') then None
         else if rest \<noteq> [] \<and> hd rest \<in> set ''.eE'' then None
         else Some (JNum (if negative then - int (digitsValue ds) else int (digitsValue ds)), rest))"

definition parseLiteral :: "string \<Rightarrow> (jsval \<times> string) option" where
  "parseLiteral s =
     (if take 4 s = ''true'' then Some (JBool True, drop 4 s)
      else if take 5 s = ''false'' then Some (JBool False, drop 5 s)
      else if take 4 s = ''null'' then Some (JNull, drop 4 s)
      else parseNumber s)"

fun parseValue :: "nat \<Rightarrow> string \<Rightarrow> (jsval \<times> string) option"
  and parseMembers :: "nat \<Rightarrow> (string \<times> jsval) list \<Rightarrow> string \<Rightarrow> (jsval \<times> string) option"
  and parseElements :: "nat \<Rightarrow> jsval list \<Rightarrow> string \<Rightarrow> (jsval \<times> string) option" where
  "parseValue 0 s = None"
| "parseValue (Suc f) s =
     (let t = skipWs s in
      if t = [] then None
      else if hd t = CHR ''{'' then
        (if skipWs (tl t) \<noteq> [] \<and> hd (skipWs (tl t)) = CHR ''}''
         then Some (JObj [], tl (skipWs (tl t)))
         else parseMembers f [] (tl t))
      else if hd t = CHR ''['' then
        (if skipWs (tl t) \<noteq> [] \<and> hd (skipWs (tl t)) = CHR '']''
         then Some (JArr [], tl (skipWs (tl t)))
         else parseElements f [] (tl t))
      else if hd t = CHR 0x22 then
        (case parseString (tl t) of
           None \<Rightarrow> None
         | Some (str, rest) \<Rightarrow> Some (JStr str, rest))
      else parseLiteral t)"
| "parseMembers 0 acc s = None"
| "parseMembers (Suc f) acc s =
     (let t = skipWs s in
      if t = [] \<or> hd t \<noteq> CHR 0x22 then None
      else (case parseString (tl t) of
              None \<Rightarrow> None
            | Some (k, r1) \<Rightarrow>
                if skipWs r1 = [] \<or> hd (skipWs r1) \<noteq> CHR '':'' then None
                else (case parseValue f (tl (skipWs r1)) of
                        None \<Rightarrow> None
                      | Some (v, r2) \<Rightarrow>
                          if skipWs r2 = [] then None
                          else if hd (skipWs r2) = CHR '','' then
                            parseMembers f (AList.update k v acc) (tl (skipWs r2))
                          else if hd (skipWs r2) = CHR ''}'' then
                            Some (JObj (AList.update k v acc), tl (skipWs r2))
                          else None)))"
| "parseElements 0 acc s = None"
| "parseElements (Suc f) acc s =
     (case parseValue f s of
        None \<Rightarrow> None
      | Some (v, r) \<Rightarrow>
          if skipWs r = [] then None
          else if hd (skipWs r) = CHR '','' then parseElements f (acc @ [v]) (tl (skipWs r))
          else if hd (skipWs r) = CHR '']'' then Some (JArr (acc @ [v]), tl (skipWs r))
          else None)"

definition parseJSON :: "string \<Rightarrow> string + jsval" where
  "parseJSON s =
     (case parseValue (Suc (length s)) s of
        None \<Rightarrow> Inl ''Unexpected token in JSON''
      | Some (v, rest) \<Rightarrow>
          if skipWs rest = [] then Inr v else Inl ''Unexpected token in JSON'')"

text \<open>The city of the end-to-end scenario, and a store that holds it.\<close>

definition springfield :: city_row where
  "springfield = \<lparr>cid = ''c1'', city = ''Springfield'', state_code = ''IL''\<rparr>"

definition sampleDb :: db where
  "sampleDb = \<lparr>cities = [springfield], research_jobs = []\<rparr>"

definition textBlock :: "string \<Rightarrow> content_block" where
  "textBlock s = \<lparr>block_type = ''text'', block_text = s\<rparr>"

text \<open>
  An environment in which every call of the provider answers with a payload wrapped in
  prose, and one in which the answer to the second call holds a span that is not JSON.
\<close>

definition samplePayloadText :: string where
  "samplePayloadText = ''{'' @ [CHR 0x22] @ ''content'' @ [CHR 0x22] @ '':'' @ [CHR 0x22] @ ''x'' @
     [CHR 0x22] @ '','' @ [CHR 0x22] @ ''wordCount'' @ [CHR 0x22] @ '':1}''"

definition sampleAnswer :: string where
  "sampleAnswer = ''noise '' @ samplePayloadText @ '' trailing''"

definition samplePayload :: jsval where
  "samplePayload = JObj [(''content'', JStr ''x''), (''wordCount'', JNum 1)]"

definition sampleEnv :: env where
  "sampleEnv =
     \<lparr>messages_create = (\<lambda>n r. Inr [textBlock sampleAnswer]),
      JSON_parse = parseJSON,
      Date_now = (\<lambda>s. ''2025-01-01T00:00:00.000Z''),
      insert_fails = False\<rparr>"






section \<open>Updates of a row\<close>

lemma mergeRow_Cons:
  "mergeRow row ((k, v) # columns) = mergeRow (AList.update k v row) columns"
  by (simp add: mergeRow_def)

lemma mergeRow_Nil: "mergeRow row [] = row"
  by (simp add: mergeRow_def)

lemma map_of_tagged:
  "map_of (map (\<lambda>(i, row). if i = j then (i, f row) else (i, row)) xs) k =
     (if k = j then map_option f (map_of xs k) else map_of xs k)"
  by (induction xs) auto

lemma jobRow_applyWrite:
  "jobRow (applyWrite w d) k =
     (if k = fst w then map_option (\<lambda>row. mergeRow row (snd w)) (jobRow d k) else jobRow d k)"
  by (simp add: jobRow_def applyWrite_def map_of_tagged)

section \<open>A new job in the store\<close>

lemma le_foldr_max: "k \<in> set ks \<Longrightarrow> k \<le> foldr max ks (0::nat)"
  by (induction ks) (auto simp: max_def)

lemma freshId_fresh: "map_of jobs (freshId jobs) = None"
proof -
  have "freshId jobs \<notin> fst ` set jobs"
  proof
    assume "freshId jobs \<in> fst ` set jobs"
    then have "freshId jobs \<in> set (map fst jobs)" by simp
    from le_foldr_max [OF this] show False by (simp add: freshId_def)
  qed
  then show ?thesis by (simp add: map_of_eq_None_iff)
qed

lemma jobRow_insert:
  "jobRow (d\<lparr>research_jobs := research_jobs d @ [(freshId (research_jobs d), row)]\<rparr>)
          (freshId (research_jobs d)) = Some row"
  by (simp add: jobRow_def map_add_def freshId_fresh)

section \<open>Failure finalization\<close>


section \<open>The updates of a run\<close>

lemma mainLoop_success:
  "mainLoop e jobId c n specs m = (ws, Inr m') \<Longrightarrow>
     ws = map (\<lambda>s. updateProgress jobId (of_int (progress s))
                      (''Main page: '' @ label s @ ''...'')) specs"
  by (induction specs arbitrary: n m ws)
     (auto simp: Let_def split: sum.splits if_splits prod.splits)

lemma sectionLoop_success:
  "sectionLoop e jobId c n nb i j specs m = (ws, Inr m') \<Longrightarrow>
     ws = map (\<lambda>(j', s). updateProgress jobId (sectionProgress i j')
                           (nb @ '': '' @ label s @ ''...''))
              (enumerate j specs)"
  by (induction specs arbitrary: n j m ws)
     (auto simp: Let_def split: sum.splits if_splits prod.splits)

lemma neighborhoodLoop_success:
  "neighborhoodLoop e jobId c n i nbs m = (ws, Inr m') \<Longrightarrow>
     ws = concat (map (\<lambda>(i', nb).
                    map (\<lambda>(j', s). updateProgress jobId (sectionProgress i' j')
                                      (nb @ '': '' @ label s @ ''...''))
                        (enumerate 0 neighborhoodSections))
                  (enumerate i nbs))"
proof (induction nbs arbitrary: n i m ws)
  case Nil
  then show ?case by simp
next
  case (Cons nb nbs)
  then show ?case
    by (auto simp: Let_def split: sum.splits if_splits prod.splits dest!: sectionLoop_success)
qed

lemma Math_round_eq_iff:
  "Math_round x = n \<longleftrightarrow> of_int n \<le> x + 1 / 2 \<and> x + 1 / 2 < of_int n + 1"
  by (simp add: Math_round_def floor_eq_iff)

lemma Math_round_of_int: "Math_round (of_int n) = n"
  by (simp add: Math_round_eq_iff)

lemma Math_round_checkpoints:
  "Math_round (sectionProgress 0 0) = 50"
  "Math_round (sectionProgress 0 (Suc 0)) = 54"
  "Math_round (sectionProgress 0 (Suc (Suc 0))) = 58"
  "Math_round (sectionProgress (Suc 0) 0) = 63"
  "Math_round (sectionProgress (Suc 0) (Suc 0)) = 67"
  "Math_round (sectionProgress (Suc 0) (Suc (Suc 0))) = 71"
  "Math_round (sectionProgress (Suc (Suc 0)) 0) = 75"
  "Math_round (sectionProgress (Suc (Suc 0)) (Suc 0)) = 79"
  "Math_round (sectionProgress (Suc (Suc 0)) (Suc (Suc 0))) = 83"
  "Math_round (sectionProgress (Suc (Suc (Suc 0))) 0) = 88"
  "Math_round (sectionProgress (Suc (Suc (Suc 0))) (Suc 0)) = 92"
  "Math_round (sectionProgress (Suc (Suc (Suc 0))) (Suc (Suc 0))) = 96"
  by (simp_all add: Math_round_eq_iff sectionProgress_def neighborhoodProgress_def
      baseProgress_def progressPerNeighborhood_def)

lemma assemble_object:
  "assemblePagesFromSections now c nbs (JObj sections) =
     Inr (assembledPages now c nbs (JObj sections))"
  by (simp add: assemblePagesFromSections_def assembledPages_def)

lemma mainLoop_result:
  "mainLoop e jobId c n specs m = (ws, Inr m') \<Longrightarrow>
     m' = fold (\<lambda>(k, s). AList.update (key s)
                 (payloadOf (generateMainSection e k c (key s) (tokens s))))
               (enumerate n specs) m"
  by (induction specs arbitrary: n m ws)
     (auto simp: Let_def payloadOf_def split: sum.splits if_splits prod.splits)

lemma mainLoop_object:
  "mainLoop e jobId c 0 mainSections [] = (ws, Inr m') \<Longrightarrow> JObj m' = mainObject e c"
  by (drule mainLoop_result) (simp add: mainSections_def mainObject_def numeral_2_eq_2 [symmetric])

lemma sectionLoop_result:
  "sectionLoop e jobId c n nb i j specs m = (ws, Inr m') \<Longrightarrow>
     m' = fold (\<lambda>(k, s). AList.update (key s)
                 (payloadOf (generateNeighborhoodSection e k c nb (key s) (tokens s))))
               (enumerate n specs) m"
  by (induction specs arbitrary: n j m ws)
     (auto simp: Let_def payloadOf_def split: sum.splits if_splits prod.splits)

lemma sectionLoop_object:
  "sectionLoop e jobId c n nb i 0 neighborhoodSections [] = (ws, Inr m') \<Longrightarrow>
     JObj m' = neighborhoodObject e c n nb"
  by (drule sectionLoop_result) (simp add: neighborhoodSections_def neighborhoodObject_def)

lemma neighborhoodLoop_Cons_success:
  assumes "neighborhoodLoop e jobId c n i (nb # rest) s = (ws, Inr s')"
  shows "\<exists>ws2. neighborhoodLoop e jobId c (n + 3) (Suc i) rest
            (AList.update (''neighborhood_'' @ nb) (neighborhoodObject e c n nb)
               (AList.update (''neighborhood_'' @ nb) (JObj []) s)) = (ws2, Inr s')"
proof -
  obtain ws1 r where sl: "sectionLoop e jobId c n nb i 0 neighborhoodSections [] = (ws1, r)"
    by (cases "sectionLoop e jobId c n nb i 0 neighborhoodSections []")
  show ?thesis
  proof (cases r)
    case (Inl err)
    with assms sl show ?thesis by simp
  next
    case (Inr nObj)
    with sl have obj: "JObj nObj = neighborhoodObject e c n nb"
      by (simp add: sectionLoop_object)
    have len: "length neighborhoodSections = 3"
      by (simp add: neighborhoodSections_def)
    obtain ws2 r2 where nl: "neighborhoodLoop e jobId c (n + 3) (Suc i) rest
            (AList.update (''neighborhood_'' @ nb) (JObj nObj)
               (AList.update (''neighborhood_'' @ nb) (JObj []) s)) = (ws2, r2)"
      by (cases "neighborhoodLoop e jobId c (n + 3) (Suc i) rest
            (AList.update (''neighborhood_'' @ nb) (JObj nObj)
               (AList.update (''neighborhood_'' @ nb) (JObj []) s))")
    from assms sl Inr nl have "r2 = Inr s'"
      by (simp add: Let_def len)
    with nl obj show ?thesis by auto
  qed
qed

lemma neighborhoodLoop_result:
  assumes "neighborhoodLoop e jobId c 6 0 neighborhoods [(''main'', mainObject e c)]
             = (ws, Inr sections)"
  shows "sections = collectedSections e c"
  using assms unfolding neighborhoods_def collectedSections_def
  by (auto dest!: neighborhoodLoop_Cons_success simp del: neighborhoodLoop.simps(2))

lemma generateContent_success_writes:
  assumes "generateContent e jobId cityId c = (ws, Inr u)"
  shows "ws = map (\<lambda>s. updateProgress jobId (of_int (progress s))
                      (''Main page: '' @ label s @ ''...'')) mainSections
        @ concat (map (\<lambda>(i', nb).
                    map (\<lambda>(j', s). updateProgress jobId (sectionProgress i' j')
                                      (nb @ '': '' @ label s @ ''...''))
                        (enumerate 0 neighborhoodSections))
                  (enumerate 0 neighborhoods))
        @ [updateProgress jobId 95 ''Assembling pages...'',
           completedWrite e jobId
             (assembledPages (\<lambda>i. Date_now e (GeneratedAt i)) c neighborhoods
                (JObj (collectedSections e c)))
             (collectedSections e c)]"
proof -
  obtain ws1 r1 where m: "mainLoop e jobId c 0 mainSections [] = (ws1, r1)"
    by (cases "mainLoop e jobId c 0 mainSections []")
  from assms m obtain mainObj where r1: "r1 = Inr mainObj"
    by (cases r1) (simp_all add: generateContent_def)
  from m r1 have mo: "JObj mainObj = mainObject e c"
    by (simp add: mainLoop_object)
  have len: "length mainSections = 6"
    by (simp add: mainSections_def)
  obtain ws2 r2 where n: "neighborhoodLoop e jobId c 6 0 neighborhoods
      [(''main'', mainObject e c)] = (ws2, r2)"
    by (cases "neighborhoodLoop e jobId c 6 0 neighborhoods [(''main'', mainObject e c)]")
  from assms m r1 mo n len obtain sections where r2: "r2 = Inr sections"
    by (cases r2) (simp_all add: generateContent_def)
  from n r2 have s: "sections = collectedSections e c"
    by (simp add: neighborhoodLoop_result)
  from assms m r1 mo n r2 s len have
    "ws = ws1 @ ws2 @ [updateProgress jobId 95 ''Assembling pages...'',
           completedWrite e jobId
             (assembledPages (\<lambda>i. Date_now e (GeneratedAt i)) c neighborhoods
                (JObj (collectedSections e c)))
             (collectedSections e c)]"
    by (simp add: generateContent_def assemble_object)
  moreover from m r1 have "ws1 = map (\<lambda>s. updateProgress jobId (of_int (progress s))
                      (''Main page: '' @ label s @ ''...'')) mainSections"
    by (auto dest: mainLoop_success)
  moreover from n r2 have "ws2 = concat (map (\<lambda>(i', nb).
                    map (\<lambda>(j', s). updateProgress jobId (sectionProgress i' j')
                                      (nb @ '': '' @ label s @ ''...''))
                        (enumerate 0 neighborhoodSections))
                  (enumerate 0 neighborhoods))"
    by (auto dest: neighborhoodLoop_success)
  ultimately show ?thesis by simp
qed


lemma completed_job_row:
  assumes "truthy cityId"
    and "single (filter (\<lambda>r. cid r = js_ToString cityId) (cities d)) = Some c"
    and "\<not> insert_fails e"
    and "generateContent e (freshId (research_jobs d)) cityId c = (ws, Inr u)"
  shows "jobRow (settled (post_research e d cityId)) (freshId (research_jobs d)) =
     Some [(''id'', JNum (int (freshId (research_jobs d)))),
           (''city_id'', cityId),
           (''status'', JStr ''completed''),
           (''progress'', JNum 100),
           (''current_step'', JStr ''Complete!''),
           (''started_at'', JStr (Date_now e StartedAt)),
           (''results_json'', JObj
              [(''pages'', JArr (assembledPages (\<lambda>i. Date_now e (GeneratedAt i)) c neighborhoods
                                  (JObj (collectedSections e c)))),
               (''sections'', JObj (collectedSections e c))]),
           (''completed_at'', JStr (Date_now e CompletedAt))]"
proof -
  let ?j = "freshId (research_jobs d)"
  note w = generateContent_success_writes [OF assms(4)]
  have bg: "backgroundTask e ?j cityId c = ws"
    by (simp add: backgroundTask_def assms(4))
  have "jobRow (applyWrites ws
          (d\<lparr>research_jobs := research_jobs d @ [(?j, newJob e ?j cityId)]\<rparr>)) ?j =
     Some [(''id'', JNum (int (freshId (research_jobs d)))),
           (''city_id'', cityId),
           (''status'', JStr ''completed''),
           (''progress'', JNum 100),
           (''current_step'', JStr ''Complete!''),
           (''started_at'', JStr (Date_now e StartedAt)),
           (''results_json'', JObj
              [(''pages'', JArr (assembledPages (\<lambda>i. Date_now e (GeneratedAt i)) c neighborhoods
                                  (JObj (collectedSections e c)))),
               (''sections'', JObj (collectedSections e c))]),
           (''completed_at'', JStr (Date_now e CompletedAt))]"
    unfolding w
    by (simp add: applyWrites_def jobRow_applyWrite
        jobRow_insert updateProgress_def completedWrite_def newJob_def mergeRow_Cons mergeRow_Nil
        mainSections_def neighborhoods_def neighborhoodSections_def)
  then show ?thesis
    using assms(1-3) by (simp add: post_research_def settled_def Let_def bg)
qed

section \<open>Sample runs\<close>

lemma sampleAnswer_match: "jsonMatch sampleAnswer = Some samplePayloadText"
  by code_simp

lemma samplePayloadText_parse: "parseJSON samplePayloadText = Inr samplePayload"
  by code_simp

lemma not_json_match: "jsonMatch ''{not json}'' = Some ''{not json}''"
  by code_simp

lemma not_json_parse: "parseJSON ''{not json}'' = Inl ''Unexpected token in JSON''"
  by code_simp

lemma parsePayload_sampleAnswer:
  "JSON_parse e = parseJSON \<Longrightarrow> parsePayload e [textBlock sampleAnswer] = Inr samplePayload"
  by (simp add: parsePayload_def contentTextOf_def textBlock_def sampleAnswer_match
      samplePayloadText_parse)


lemma sampleEnv_parse: "JSON_parse sampleEnv = parseJSON"
  by (simp add: sampleEnv_def)


lemma sampleEnv_main: "generateMainSection sampleEnv n c k t = Inr samplePayload"
proof -
  have "messages_create sampleEnv n r = Inr [textBlock sampleAnswer]" for r
    by (simp add: sampleEnv_def)
  then show ?thesis
    by (simp add: generateMainSection_def parsePayload_sampleAnswer [OF sampleEnv_parse])
qed

lemma sampleEnv_neighborhood:
  "generateNeighborhoodSection sampleEnv n c nb k t = Inr samplePayload"
proof -
  have "messages_create sampleEnv n r = Inr [textBlock sampleAnswer]" for r
    by (simp add: sampleEnv_def)
  then show ?thesis
    by (simp add: generateNeighborhoodSection_def parsePayload_sampleAnswer [OF sampleEnv_parse])
qed

lemma sampleEnv_run_succeeds: "snd (generateContent sampleEnv j cityId c) = Inr ()"
  by (simp add: generateContent_def mainSections_def neighborhoods_def neighborhoodSections_def
      sampleEnv_main sampleEnv_neighborhood assemble_object samplePayload_def
      split: prod.splits)

lemma sampleEnv_run:
  "generateContent sampleEnv j cityId c = (fst (generateContent sampleEnv j cityId c), Inr ())"
  using sampleEnv_run_succeeds [of j cityId c] by (metis prod.collapse)

lemma sampleDb_city:
  "single (filter (\<lambda>r. cid r = js_ToString (JStr ''c1'')) (cities sampleDb)) = Some springfield"
  by (simp add: sampleDb_def springfield_def single_def)

lemma sampleDb_fresh: "freshId (research_jobs sampleDb) = 1"
  by (simp add: sampleDb_def freshId_def)

lemma mainPage_fields:
  "getProp (mainPage now c m) ''type'' = JStr ''main''"
  "getProp (mainPage now c m) ''title'' =
     JStr (''Dumpster Rental in '' @ city c @ '', '' @ state_code c @
           '' - Affordable Roll-Off Rentals'')"
  by (simp_all add: mainPage_def)

lemma neighborhoodPage_fields:
  "getProp (neighborhoodPage now c s nb) ''type'' = JStr ''neighborhood''"
  "getProp (neighborhoodPage now c s nb) ''neighborhoodName'' = JStr nb"
  "getProp (neighborhoodPage now c s nb) ''title'' =
     JStr (''Dumpster Rental in '' @ nb @ '', '' @ city c)"
  by (simp_all add: neighborhoodPage_def Let_def)

section \<open>The progress a successful run reports\<close>

text \<open>
  Claim C1. The claim says that the progress values of a successful run never decrease,
  that the last value before completion is 95 and that completion sets 100. The values a
  successful run writes are the twenty below, whatever the city and whatever the provider
  answers: the last neighborhood section is reported at
  \<open>Math.round(50 + 3 * 12.5 + 2 * (12.5 / 3)) = 96\<close>, and the next update writes 95. The
  last value before completion is 95 and completion writes 100, but the sequence is not
  non-decreasing.
\<close>

theorem successful_run_progress:
  assumes "generateContent e jobId cityId c = (ws, Inr u)"
  shows "reportedProgress ws =
           map JNum [5, 15, 25, 35, 45, 50, 50, 54, 58, 63, 67, 71, 75, 79, 83, 88, 92, 96, 95, 100]
         \<and> \<not> sorted [5, 15, 25, 35, 45, 50, 50, 54, 58, 63, 67, 71, 75, 79, 83, 88, 92, 96, 95,
                      100 :: int]"
proof -
  note ws = generateContent_success_writes [OF assms]
  have r95: "Math_round 95 = 95"
    using Math_round_of_int [of 95] by simp
  have "reportedProgress ws =
          map JNum [5, 15, 25, 35, 45, 50, 50, 54, 58, 63, 67, 71, 75, 79, 83, 88, 92, 96, 95, 100]"
    unfolding ws reportedProgress_def
    by (simp add: mainSections_def neighborhoods_def neighborhoodSections_def
        updateProgress_def completedWrite_def List.map_filter_def Math_round_checkpoints
        Math_round_of_int r95)
  then show ?thesis by simp
qed

theorem successful_run_progress_witness:
  "reportedProgress (fst (generateContent sampleEnv 1 (JStr ''c1'') springfield)) =
     map JNum [5, 15, 25, 35, 45, 50, 50, 54, 58, 63, 67, 71, 75, 79, 83, 88, 92, 96, 95, 100]"
  using successful_run_progress [OF sampleEnv_run [of 1 "JStr ''c1''" springfield]] by simp

section \<open>A failure in the second main section\<close>







section \<open>The checkpoints of the neighborhood sections\<close>





section \<open>The pages of a completed job\<close>

text \<open>
  Claim C4, as amended. A job takes no neighborhood list: for the city
  \<^verbatim>\<open>{id: "c1", city: "Springfield", state_code: "IL"}\<close> a successful job completes with
  exactly 5 pages, the main page followed by the pages of Downtown, Northside, Westside
  and Eastside in that order. The main page's title is
  \<^verbatim>\<open>Dumpster Rental in Springfield, IL - Affordable Roll-Off Rentals\<close> and the title of
  the second neighborhood page is \<^verbatim>\<open>Dumpster Rental in Northside, Springfield\<close>. The
  page assembler itself, called with the list of Downtown and Northside on any sections
  object, returns 3 pages with the claim's titles.
\<close>

theorem springfield_job_pages:
  assumes "single (filter (\<lambda>r. cid r = js_ToString (JStr ''c1'')) (cities d)) = Some springfield"
    and "\<not> insert_fails e"
    and "generateContent e (freshId (research_jobs d)) (JStr ''c1'') springfield = (ws, Inr u)"
  shows "jobColumn (settled (post_research e d (JStr ''c1''))) (freshId (research_jobs d))
           ''status'' = JStr ''completed'' \<and>
         length (jobPages (settled (post_research e d (JStr ''c1''))) (freshId (research_jobs d)))
           = 5 \<and>
         map (\<lambda>p. getProp p ''type'')
             (jobPages (settled (post_research e d (JStr ''c1''))) (freshId (research_jobs d))) =
           map JStr [''main'', ''neighborhood'', ''neighborhood'', ''neighborhood'',
                     ''neighborhood''] \<and>
         map (\<lambda>p. getProp p ''title'')
             (jobPages (settled (post_research e d (JStr ''c1''))) (freshId (research_jobs d))) =
           map JStr [''Dumpster Rental in Springfield, IL - Affordable Roll-Off Rentals'',
                     ''Dumpster Rental in Downtown, Springfield'',
                     ''Dumpster Rental in Northside, Springfield'',
                     ''Dumpster Rental in Westside, Springfield'',
                     ''Dumpster Rental in Eastside, Springfield''] \<and>
         assemblePagesFromSections now springfield [''Downtown'', ''Northside''] (JObj s) =
           Inr (assembledPages now springfield [''Downtown'', ''Northside''] (JObj s)) \<and>
         map (\<lambda>p. getProp p ''title'')
             (assembledPages now springfield [''Downtown'', ''Northside''] (JObj s)) =
           map JStr [''Dumpster Rental in Springfield, IL - Affordable Roll-Off Rentals'',
                     ''Dumpster Rental in Downtown, Springfield'',
                     ''Dumpster Rental in Northside, Springfield'']"
proof -
  have c1: "truthy (JStr ''c1'')" by simp
  note row = completed_job_row [OF c1 assms]
  show ?thesis
    by (simp add: jobColumn_def jobPages_def row assemble_object assembledPages_def
        neighborhoods_def mainPage_fields neighborhoodPage_fields springfield_def)
qed

theorem springfield_job_pages_witness:
  "length (jobPages (settled (post_research sampleEnv sampleDb (JStr ''c1''))) 1) = 5 \<and>
   map (\<lambda>p. getProp p ''title'')
       (jobPages (settled (post_research sampleEnv sampleDb (JStr ''c1''))) 1) =
     map JStr [''Dumpster Rental in Springfield, IL - Affordable Roll-Off Rentals'',
               ''Dumpster Rental in Downtown, Springfield'',
               ''Dumpster Rental in Northside, Springfield'',
               ''Dumpster Rental in Westside, Springfield'',
               ''Dumpster Rental in Eastside, Springfield'']"
proof -
  have h: "\<not> insert_fails sampleEnv"
    by (simp add: sampleEnv_def)
  show ?thesis
    using springfield_job_pages [OF sampleDb_city h sampleEnv_run, of "\<lambda>i. []" "[]"]
    by (simp add: sampleDb_fresh)
qed

text \<open>
  The claim as stated fails: the job of the sample store and provider completes, and it
  has 5 pages, not 3.
\<close>

theorem springfield_job_pages_counterexample:
  "jobColumn (settled (post_research sampleEnv sampleDb (JStr ''c1''))) 1 ''status'' =
     JStr ''completed'' \<and>
   length (jobPages (settled (post_research sampleEnv sampleDb (JStr ''c1''))) 1) = 5 \<and>
   length (jobPages (settled (post_research sampleEnv sampleDb (JStr ''c1''))) 1) \<noteq> 3"
proof -
  have c1: "truthy (JStr ''c1'')" by simp
  have h: "\<not> insert_fails sampleEnv"
    by (simp add: sampleEnv_def)
  show ?thesis
    using completed_job_row [OF c1 sampleDb_city h sampleEnv_run]
    by (simp add: jobColumn_def jobPages_def sampleDb_fresh assembledPages_def neighborhoods_def)
qed

section \<open>The fixed neighborhood list\<close>

text \<open>
  Claim C10. Whatever the city, the pipeline runs on the constant list of Downtown,
  Northside, Westside and Eastside. So every job that succeeds is completed with exactly
  5 pages, the main page and one page for each of the four neighborhoods in that order,
  and with a sections object that holds, besides \<^verbatim>\<open>main\<close>, one object for each
  neighborhood with three payloads: 12 neighborhood-section payloads. The run sends 20
  updates: one before each of the 6 + 12 generations, and two to finish.
\<close>

theorem fixed_neighborhood_list:
  assumes "truthy cityId"
    and "single (filter (\<lambda>r. cid r = js_ToString cityId) (cities d)) = Some c"
    and "\<not> insert_fails e"
    and "generateContent e (freshId (research_jobs d)) cityId c = (ws, Inr u)"
  shows "neighborhoods = [''Downtown'', ''Northside'', ''Westside'', ''Eastside''] \<and>
         jobColumn (settled (post_research e d cityId)) (freshId (research_jobs d))
           ''status'' = JStr ''completed'' \<and>
         length (jobPages (settled (post_research e d cityId)) (freshId (research_jobs d)))
           = 5 \<and>
         map (\<lambda>p. getProp p ''type'')
             (jobPages (settled (post_research e d cityId)) (freshId (research_jobs d))) =
           map JStr [''main'', ''neighborhood'', ''neighborhood'', ''neighborhood'',
                     ''neighborhood''] \<and>
         map (\<lambda>p. getProp p ''neighborhoodName'')
             (tl (jobPages (settled (post_research e d cityId))
                    (freshId (research_jobs d)))) =
           map JStr neighborhoods \<and>
         getProp (jobColumn (settled (post_research e d cityId))
                    (freshId (research_jobs d)) ''results_json'') ''sections'' =
           JObj (collectedSections e c) \<and>
         map fst (collectedSections e c) =
           ''main'' # map (\<lambda>nb. ''neighborhood_'' @ nb) neighborhoods \<and>
         sum_list (map (\<lambda>nb. propertyCount
                          (getProp (JObj (collectedSections e c)) (''neighborhood_'' @ nb)))
                       neighborhoods) = 12 \<and>
         length ws = 6 + 12 + 2"
proof -
  note row = completed_job_row [OF assms]
  note w = generateContent_success_writes [OF assms(4)]
  have "length ws = 6 + 12 + 2"
    unfolding w by (simp add: mainSections_def neighborhoods_def neighborhoodSections_def)
  then show ?thesis
    by (simp add: jobColumn_def jobPages_def row assembledPages_def
        neighborhoods_def mainPage_fields neighborhoodPage_fields collectedSections_def
        neighborhoodObject_def propertyCount_def)
qed

theorem fixed_neighborhood_list_witness:
  "length (jobPages (settled (post_research sampleEnv sampleDb (JStr ''c1''))) 1) = 5 \<and>
   map (\<lambda>p. getProp p ''neighborhoodName'')
       (tl (jobPages (settled (post_research sampleEnv sampleDb (JStr ''c1''))) 1)) =
     map JStr [''Downtown'', ''Northside'', ''Westside'', ''Eastside''] \<and>
   sum_list (map (\<lambda>nb. propertyCount
                    (getProp (JObj (collectedSections sampleEnv springfield))
                       (''neighborhood_'' @ nb)))
                 [''Downtown'', ''Northside'', ''Westside'', ''Eastside'']) = 12"
proof -
  have c1: "truthy (JStr ''c1'')" by simp
  have h: "\<not> insert_fails sampleEnv"
    by (simp add: sampleEnv_def)
  show ?thesis
    using fixed_neighborhood_list [OF c1 sampleDb_city h sampleEnv_run]
    by (simp add: sampleDb_fresh)
qed

section \<open>The span the extraction takes\<close>

lemma span_D:
  fixes t :: "'a list"
  assumes close: "b \<in> set (dropWhile (\<lambda>x. x \<noteq> a) t)"
    and m: "m = rev (dropWhile (\<lambda>x. x \<noteq> b) (rev (dropWhile (\<lambda>x. x \<noteq> a) t)))"
  shows "\<exists>pre post. t = pre @ m @ post \<and> a \<notin> set pre \<and> b \<notin> set post \<and>
           m \<noteq> [] \<and> hd m = a \<and> last m = b"
proof -
  define pre where "pre = takeWhile (\<lambda>x. x \<noteq> a) t"
  define fb where "fb = dropWhile (\<lambda>x. x \<noteq> a) t"
  define post where "post = rev (takeWhile (\<lambda>x. x \<noteq> b) (rev fb))"
  have m': "m = rev (dropWhile (\<lambda>x. x \<noteq> b) (rev fb))"
    by (simp add: m fb_def)
  have "rev (dropWhile (\<lambda>x. x \<noteq> b) (rev fb)) @ rev (takeWhile (\<lambda>x. x \<noteq> b) (rev fb)) =
        rev (rev fb)"
    by (metis rev_append takeWhile_dropWhile_id)
  then have fb: "fb = m @ post"
    by (simp add: m' post_def)
  have "t = pre @ fb"
    by (simp add: pre_def fb_def)
  with fb have t: "t = pre @ m @ post" by simp
  have pre: "a \<notin> set pre"
    unfolding pre_def by (auto dest: set_takeWhileD)
  have post: "b \<notin> set post"
    unfolding post_def by (auto dest: set_takeWhileD)
  from close have "b \<in> set (rev fb)"
    by (simp add: fb_def)
  then have dne: "dropWhile (\<lambda>x. x \<noteq> b) (rev fb) \<noteq> []"
    by (auto simp: dropWhile_eq_Nil_conv)
  then have mne: "m \<noteq> []"
    by (simp add: m')
  from dne have "hd (dropWhile (\<lambda>x. x \<noteq> b) (rev fb)) = b"
    using hd_dropWhile [of "\<lambda>x. x \<noteq> b" "rev fb"] by simp
  with dne have lst: "last m = b"
    by (simp add: m' last_rev)
  from close have "fb \<noteq> []"
    unfolding fb_def by (metis empty_iff empty_set)
  then have "hd fb = a"
    unfolding fb_def using hd_dropWhile [of "\<lambda>x. x \<noteq> a" t] by simp
  with fb mne have hdm: "hd m = a"
    by simp
  from t pre post mne hdm lst show ?thesis by blast
qed

lemma span_I:
  fixes t :: "'a list"
  assumes "t = pre @ m @ post" "a \<notin> set pre" "b \<notin> set post"
    "m \<noteq> []" "hd m = a" "last m = b"
  shows "b \<in> set (dropWhile (\<lambda>x. x \<noteq> a) t) \<and>
         rev (dropWhile (\<lambda>x. x \<noteq> b) (rev (dropWhile (\<lambda>x. x \<noteq> a) t))) = m"
proof -
  from assms(4,5) obtain m' where m': "m = a # m'"
    by (cases m) auto
  have "dropWhile (\<lambda>x. x \<noteq> a) (pre @ m @ post) = dropWhile (\<lambda>x. x \<noteq> a) (m @ post)"
    using assms(2) by (intro dropWhile_append2) auto
  then have fb: "dropWhile (\<lambda>x. x \<noteq> a) t = m @ post"
    by (simp add: assms(1) m')
  from assms(4,6) obtain m2 where m2: "m = m2 @ [b]"
    by (metis append_butlast_last_id)
  have "dropWhile (\<lambda>x. x \<noteq> b) (rev post @ rev m) = dropWhile (\<lambda>x. x \<noteq> b) (rev m)"
    using assms(3) by (intro dropWhile_append2) auto
  then have "rev (dropWhile (\<lambda>x. x \<noteq> b) (rev (m @ post))) = m"
    by (simp add: m2)
  moreover have "b \<in> set (m @ post)"
    by (simp add: m2)
  ultimately show ?thesis
    by (simp add: fb)
qed

lemma jsonMatch_Some_iff:
  "jsonMatch t = Some m \<longleftrightarrow>
     (\<exists>pre post. t = pre @ m @ post \<and> CHR ''{'' \<notin> set pre \<and> CHR ''}'' \<notin> set post \<and>
        m \<noteq> [] \<and> hd m = CHR ''{'' \<and> last m = CHR ''}'')"
proof
  assume "jsonMatch t = Some m"
  then have "CHR ''}'' \<in> set (dropWhile (\<lambda>x. x \<noteq> CHR ''{'') t)"
    and "m = rev (dropWhile (\<lambda>x. x \<noteq> CHR ''}'') (rev (dropWhile (\<lambda>x. x \<noteq> CHR ''{'') t)))"
    by (auto simp: jsonMatch_def Let_def split: if_splits)
  then show "\<exists>pre post. t = pre @ m @ post \<and> CHR ''{'' \<notin> set pre \<and> CHR ''}'' \<notin> set post \<and>
        m \<noteq> [] \<and> hd m = CHR ''{'' \<and> last m = CHR ''}''"
    by (rule span_D)
next
  assume "\<exists>pre post. t = pre @ m @ post \<and> CHR ''{'' \<notin> set pre \<and> CHR ''}'' \<notin> set post \<and>
        m \<noteq> [] \<and> hd m = CHR ''{'' \<and> last m = CHR ''}''"
  then obtain pre post where "t = pre @ m @ post" "CHR ''{'' \<notin> set pre" "CHR ''}'' \<notin> set post"
        "m \<noteq> []" "hd m = CHR ''{''" "last m = CHR ''}''"
    by blast
  from span_I [OF this] show "jsonMatch t = Some m"
    by (simp add: jsonMatch_def Let_def)
qed

lemma jsonMatch_None_iff:
  "jsonMatch t = None \<longleftrightarrow> (\<forall>pre mid post. t \<noteq> pre @ CHR ''{'' # mid @ CHR ''}'' # post)"
proof
  assume n: "jsonMatch t = None"
  show "\<forall>pre mid post. t \<noteq> pre @ CHR ''{'' # mid @ CHR ''}'' # post"
  proof (intro allI notI)
    fix pre mid post
    assume t: "t = pre @ CHR ''{'' # mid @ CHR ''}'' # post"
    have "\<exists>xs. dropWhile (\<lambda>x. x \<noteq> CHR ''{'') t = xs @ CHR ''{'' # mid @ CHR ''}'' # post"
    proof (cases "CHR ''{'' \<in> set pre")
      case True
      then have "dropWhile (\<lambda>x. x \<noteq> CHR ''{'') (pre @ CHR ''{'' # mid @ CHR ''}'' # post) =
          dropWhile (\<lambda>x. x \<noteq> CHR ''{'') pre @ CHR ''{'' # mid @ CHR ''}'' # post"
        by (intro dropWhile_append1) auto
      then show ?thesis unfolding t by blast
    next
      case False
      then have "dropWhile (\<lambda>x. x \<noteq> CHR ''{'') (pre @ CHR ''{'' # mid @ CHR ''}'' # post) =
          dropWhile (\<lambda>x. x \<noteq> CHR ''{'') (CHR ''{'' # mid @ CHR ''}'' # post)"
        by (intro dropWhile_append2) auto
      then have "dropWhile (\<lambda>x. x \<noteq> CHR ''{'') t = [] @ CHR ''{'' # mid @ CHR ''}'' # post"
        unfolding t by simp
      then show ?thesis by blast
    qed
    then have "CHR ''}'' \<in> set (dropWhile (\<lambda>x. x \<noteq> CHR ''{'') t)"
      by auto
    with n show False
      by (simp add: jsonMatch_def Let_def split: if_splits)
  qed
next
  assume a: "\<forall>pre mid post. t \<noteq> pre @ CHR ''{'' # mid @ CHR ''}'' # post"
  show "jsonMatch t = None"
  proof (rule ccontr)
    assume "jsonMatch t \<noteq> None"
    then obtain m where "jsonMatch t = Some m" by auto
    then obtain pre post where
      t: "t = pre @ m @ post" and mne: "m \<noteq> []" and h: "hd m = CHR ''{''"
      and l: "last m = CHR ''}''"
      unfolding jsonMatch_Some_iff by blast
    from mne h obtain m' where m': "m = CHR ''{'' # m'" by (cases m) auto
    with l have ne: "m' \<noteq> []" by auto
    with m' l have "last m' = CHR ''}''" by simp
    with ne have "m' = butlast m' @ [CHR ''}'']"
      by (metis append_butlast_last_id)
    with t m' have "t = pre @ CHR ''{'' # butlast m' @ CHR ''}'' # post"
      by (metis append_Cons append_Nil append_assoc)
    with a show False by blast
  qed
qed

text \<open>
  Claim C5. For every response text, the extraction takes the span from the first
  \<^verbatim>\<open>{\<close> to the last \<^verbatim>\<open>}\<close> and hands it to \<^verbatim>\<open>JSON.parse\<close>: the match is the one
  substring \<open>m\<close> that starts with \<^verbatim>\<open>{\<close>, ends with \<^verbatim>\<open>}\<close>, has no \<^verbatim>\<open>{\<close> before it and no
  \<^verbatim>\<open>}\<close> after it. A text with no \<^verbatim>\<open>{\<close> that has a \<^verbatim>\<open>}\<close> after it fails with the error
  \<^verbatim>\<open>No JSON in response\<close> (the spec's NoStructuredPayloadError); a span that
  \<^verbatim>\<open>JSON.parse\<close> rejects fails with its \<^verbatim>\<open>SyntaxError\<close> (the spec's
  MalformedPayloadError). On the text
  \<^verbatim>\<open>noise {"content":"x","wordCount":1} trailing\<close> the span is
  \<^verbatim>\<open>{"content":"x","wordCount":1}\<close> and the result is what \<^verbatim>\<open>JSON.parse\<close> returns on it,
  the object with \<^verbatim>\<open>content\<close> \<^verbatim>\<open>"x"\<close> and \<^verbatim>\<open>wordCount\<close> 1; on \<^verbatim>\<open>{not json}\<close> the span
  is the whole text and the result is the \<^verbatim>\<open>SyntaxError\<close> of \<^verbatim>\<open>JSON.parse\<close>.
\<close>

theorem extraction_contract:
  "(jsonMatch t = Some m \<longleftrightarrow>
      (\<exists>pre post. t = pre @ m @ post \<and> CHR ''{'' \<notin> set pre \<and> CHR ''}'' \<notin> set post \<and>
         m \<noteq> [] \<and> hd m = CHR ''{'' \<and> last m = CHR ''}'')) \<and>
   (jsonMatch t = None \<longleftrightarrow>
      (\<forall>pre mid post. t \<noteq> pre @ CHR ''{'' # mid @ CHR ''}'' # post)) \<and>
   parsePayload e [textBlock t] =
     (case jsonMatch t of
        None \<Rightarrow> Inl (JsError ''Error'' ''No JSON in response'')
      | Some matched \<Rightarrow>
          (case JSON_parse e matched of
             Inl msg \<Rightarrow> Inl (JsError ''SyntaxError'' msg)
           | Inr payload \<Rightarrow> Inr payload)) \<and>
   jsonMatch sampleAnswer = Some samplePayloadText \<and>
   (JSON_parse e samplePayloadText = Inr samplePayload \<longrightarrow>
      parsePayload e [textBlock sampleAnswer] = Inr samplePayload) \<and>
   jsonMatch ''{not json}'' = Some ''{not json}'' \<and>
   (JSON_parse e ''{not json}'' = Inl msg' \<longrightarrow>
      parsePayload e [textBlock ''{not json}''] = Inl (JsError ''SyntaxError'' msg'))"
proof -
  have p: "parsePayload e [textBlock s] =
     (case jsonMatch s of
        None \<Rightarrow> Inl (JsError ''Error'' ''No JSON in response'')
      | Some matched \<Rightarrow>
          (case JSON_parse e matched of
             Inl msg \<Rightarrow> Inl (JsError ''SyntaxError'' msg)
           | Inr payload \<Rightarrow> Inr payload))" for s
    by (simp add: parsePayload_def contentTextOf_def textBlock_def split: option.splits sum.splits)
  show ?thesis
    using jsonMatch_Some_iff [of t m] jsonMatch_None_iff [of t]
    by (simp add: p sampleAnswer_match not_json_match)
qed

theorem extraction_contract_witness:
  "parsePayload sampleEnv [textBlock sampleAnswer] = Inr samplePayload \<and>
   parsePayload sampleEnv [textBlock ''{not json}''] =
     Inl (JsError ''SyntaxError'' ''Unexpected token in JSON'') \<and>
   parsePayload sampleEnv [textBlock ''no payload here''] =
     Inl (JsError ''Error'' ''No JSON in response'')"
proof -
  have n: "jsonMatch ''no payload here'' = None"
    by code_simp
  show ?thesis
    using extraction_contract [of "''no payload here''" "[]" sampleEnv "''Unexpected token in JSON''"]
      n samplePayloadText_parse not_json_parse
    by (simp add: sampleEnv_parse)
qed

section \<open>The aggregate word count of the main page\<close>





section \<open>The assembler returns, and depends on nothing but its inputs and the clock\<close>


section \<open>A city identifier that does not resolve\<close>

text \<open>
  Claim C8, as amended. When the city identifier of the request does not resolve to one
  row of the cities table, the handler answers at once, inserts no job and starts no
  task. The answer is the not-found error (status 404) when the identifier is truthy,
  and the validation error \<^verbatim>\<open>City ID required\<close> (status 400) when it is missing, empty,
  0, \<^verbatim>\<open>null\<close> or \<^verbatim>\<open>false\<close>: the guard \<^verbatim>\<open>if (!cityId)\<close> comes first.
\<close>

theorem unknown_city_not_found:
  assumes "single (filter (\<lambda>r. cid r = js_ToString cityId) (cities d)) = None"
  shows "post_research e d cityId =
           (if truthy cityId
            then (\<lparr>status_code = 404, body = JObj [(''error'', JStr ''City not found'')]\<rparr>, d, [])
            else (\<lparr>status_code = 400, body = JObj [(''error'', JStr ''City ID required'')]\<rparr>,
                  d, [])) \<and>
         research_jobs (settled (post_research e d cityId)) = research_jobs d"
  using assms by (simp add: post_research_def settled_def applyWrites_def)

theorem unknown_city_not_found_witness:
  "post_research sampleEnv sampleDb (JStr ''c2'') =
     (\<lparr>status_code = 404, body = JObj [(''error'', JStr ''City not found'')]\<rparr>, sampleDb, [])"
proof -
  have "single (filter (\<lambda>r. cid r = js_ToString (JStr ''c2'')) (cities sampleDb)) = None"
    by (simp add: sampleDb_def springfield_def single_def)
  from unknown_city_not_found [OF this, of sampleEnv] show ?thesis by simp
qed

text \<open>
  The claim as stated fails: the identifiers 0 and the empty string resolve to no city of
  the sample store, and the answer to each is status 400, not the not-found error.
\<close>

theorem unknown_city_not_found_counterexample:
  "single (filter (\<lambda>r. cid r = js_ToString (JNum 0)) (cities sampleDb)) = None \<and>
   post_research sampleEnv sampleDb (JNum 0) =
     (\<lparr>status_code = 400, body = JObj [(''error'', JStr ''City ID required'')]\<rparr>, sampleDb, []) \<and>
   status_code (fst (post_research sampleEnv sampleDb (JNum 0))) \<noteq> 404 \<and>
   single (filter (\<lambda>r. cid r = js_ToString (JStr [])) (cities sampleDb)) = None \<and>
   status_code (fst (post_research sampleEnv sampleDb (JStr []))) \<noteq> 404"
  by code_simp

end
